theory Spec2Isabelle
  imports Main
begin

section \<open>Python strings\<close>

text \<open>
  A Python \<open>str\<close> is modelled as a \<open>string\<close>, one list element per character, so that
  \<open>len\<close> is \<open>length\<close> and the slice \<open>s[:n]\<close> is \<open>take n s\<close>.
  \<open>isspace\<close> lists the characters below 256 that \<open>str.isspace\<close> accepts; they are the
  ones \<open>str.strip()\<close> removes and \<open>str.split()\<close> splits at.
\<close>

definition isspace :: "char \<Rightarrow> bool" where
  "isspace c = (c \<in> set [CHR 0x09, CHR 0x0A, CHR 0x0B, CHR 0x0C, CHR 0x0D,
                          CHR 0x1C, CHR 0x1D, CHR 0x1E, CHR 0x1F, CHR 0x20,
                          CHR 0x85, CHR 0xA0])"

definition strip :: "string \<Rightarrow> string" where
  "strip s = rev (dropWhile isspace (rev (dropWhile isspace s)))"

text \<open>\<open>split_acc s w\<close> scans \<open>s\<close> with the word \<open>w\<close> read so far; \<open>s.split()\<close> starts it empty.\<close>

fun split_acc :: "string \<Rightarrow> string \<Rightarrow> string list" where
  "split_acc [] w = (if w = [] then [] else [w])"
| "split_acc (c # cs) w =
     (if isspace c then (if w = [] then split_acc cs [] else w # split_acc cs [])
      else split_acc cs (w @ [c]))"

definition split_ws :: "string \<Rightarrow> string list" where
  "split_ws s = split_acc s []"

text \<open>
  \<open>template.format(topic=..., content=...)\<close>: every \<open>{topic}\<close> and \<open>{content}\<close> field of the
  template is replaced, the substituted text is not scanned again. The templates of
  \<open>CONFIG\<close> hold no other brace, where Python would raise; such a brace is copied here.
\<close>

fun format_tc :: "string \<Rightarrow> string \<Rightarrow> string \<Rightarrow> string" where
  "format_tc [] topic content = []"
| "format_tc (c # cs) topic content =
     (if c = CHR ''{'' \<and> take 6 cs = ''topic}'' then topic @ format_tc (drop 6 cs) topic content
      else if c = CHR ''{'' \<and> take 8 cs = ''content}'' then content @ format_tc (drop 8 cs) topic content
      else c # format_tc cs topic content)"

section \<open>Configuration\<close>

record config =
  huggingface_api_key :: "string option"
  post_count_per_day :: nat
  content_topics :: "string list"
  post_templates :: "string list"
  output_dir :: string
  manual_review :: bool

text \<open>\<open>CONFIG key\<close> is the module's \<open>CONFIG\<close> when \<open>os.getenv('HUGGINGFACE_API_KEY')\<close> is \<open>key\<close>.\<close>

definition CONFIG :: "string option \<Rightarrow> config" where
  "CONFIG key = \<lparr>
     huggingface_api_key = key,
     post_count_per_day = 4,
     content_topics = [
       ''Emerging Technologies'', ''Industry Trends'', ''Product Innovation'',
       ''Software Engineering'', ''AI Developments''],
     post_templates = [
       ''Sharing insights on {topic}: {content} This advancement is shaping the future of technology. #Tech #Innovation'',
       ''The latest in {topic}: {content} This development highlights the potential for growth in the industry. #Technology #Future'',
       ''A deep dive into {topic}: {content} This trend is driving significant progress. #TechTrends #Innovation'',
       ''Exploring advancements in {topic}: {content} These innovations are redefining the landscape. #SoftwareEngineering #Tech'',
       ''{topic} continues to evolve: {content} This progress underscores the impact of technology on our world. #AI #Innovation''],
     output_dir = ''/tmp/pending_posts'',
     manual_review = True \<rparr>"

section \<open>HTTP calls and exceptions\<close>

text \<open>
  A response of \<open>requests.post\<close>: its status code, \<open>response.text\<close>, its headers (keyed
  by the lower-cased header name, as the case-insensitive \<open>response.headers\<close> looks them
  up) and \<open>generated\<close>, the value of \<open>response.json()[0]['generated_text']\<close> when that
  expression evaluates to a string (\<open>None\<close> when it raises).
\<close>

record response =
  status_code :: int
  body_text :: string
  headers :: "(string \<times> string) list"
  generated :: "string option"

datatype exn =
    HTTPError response
  | Exception string
  | HTTPException int string

text \<open>
  The body of a request: the generation payload \<open>{'inputs': ..., 'parameters': {'min_length': 300,
  'max_length': 512, 'temperature': 0.7}}\<close> by its prompt, the publish payload by author and
  commentary (its other fields are constants).
\<close>

datatype payload = Inputs string | Commentary string string

record request =
  url :: string
  authorization :: string
  payload :: payload

text \<open>
  The remote services are a function of the requests sent so far (the last one is the one
  being answered): either the transport fails with a message, or a response arrives.
\<close>

datatype outcome = Raises string | Returns response

type_synonym network = "request list \<Rightarrow> outcome"

text \<open>\<open>response.raise_for_status()\<close> of the requests library raises for 4xx and 5xx.\<close>

definition raise_for_status :: "response \<Rightarrow> exn + unit" where
  "raise_for_status r =
     (if 400 \<le> status_code r \<and> status_code r < 600 then Inl (HTTPError r) else Inr ())"

section \<open>Content generator\<close>

definition primary_model :: string where
  "primary_model = ''google/flan-t5-large''"

definition prompt :: "string \<Rightarrow> string" where
  "prompt topic =
     ''Write a detailed, professional LinkedIn post (300-500 words) about '' @ topic @ ''. ''
     @ ''Use a positive, informative tone, focus on one key insight or advancement, and align with a tech-savvy ''
     @ ''personal brand. Avoid jargon, provide specific details, examples, or use cases, and do not include questions ''
     @ ''or calls-to-action. Include relevant statistics, trends, or real-world applications to enhance depth.''"

definition follow_up_prompt :: "string \<Rightarrow> string" where
  "follow_up_prompt topic =
     ''Continue the previous LinkedIn post about '' @ topic @ '', adding 200-300 more words. ''
     @ ''Maintain a positive, informative tone, provide additional details, examples, or applications, ''
     @ ''and align with a tech-savvy personal brand. Avoid jargon and do not include questions or calls-to-action.''"

text \<open>The static paragraph both exception handlers return for the fallback model.\<close>

definition filler :: "string \<Rightarrow> string" where
  "filler topic =
     ''Exploring '' @ topic @ '' today! Recent advancements are driving significant progress in this field. ''
     @ ''Innovations are enabling new applications, from streamlining processes to enhancing scalability. ''
     @ ''For example, recent developments have led to a 20% improvement in processing efficiency in related systems. ''
     @ ''This trend is poised to influence industries by improving operational workflows and fostering sustainable growth.''"

definition generation_request :: "string \<Rightarrow> string \<Rightarrow> string \<Rightarrow> request" where
  "generation_request key model inputs = \<lparr>
     url = ''https://api-inference.huggingface.co/models/'' @ model,
     authorization = ''Bearer '' @ key,
     payload = Inputs inputs \<rparr>"

text \<open>
  One round trip to the generation service, the three lines the source has twice:
  \<open>requests.post\<close>, \<open>raise_for_status()\<close> and \<open>json()[0]['generated_text'].strip()\<close>.
  The request is appended to the log of requests sent.
\<close>

definition call_model ::
  "network \<Rightarrow> request list \<Rightarrow> string \<Rightarrow> string \<Rightarrow> string \<Rightarrow> request list \<times> (exn + string)" where
  "call_model net log key model inputs =
     (let log' = log @ [generation_request key model inputs] in
      case net log' of
        Raises msg \<Rightarrow> (log', Inl (Exception msg))
      | Returns r \<Rightarrow>
          (case raise_for_status r of
             Inl e \<Rightarrow> (log', Inl e)
           | Inr _ \<Rightarrow>
               (case generated r of
                  None \<Rightarrow> (log', Inl (Exception ''generated_text''))
                | Some g \<Rightarrow> (log', Inr (strip g)))))"

text \<open>The \<open>try\<close> block of \<open>generate_content_with_huggingface\<close>.\<close>

definition try_generate ::
  "network \<Rightarrow> request list \<Rightarrow> string \<Rightarrow> string \<Rightarrow> string \<Rightarrow> request list \<times> (exn + string)" where
  "try_generate net log key topic model =
     (case call_model net log key model (prompt topic) of
        (log1, Inl e) \<Rightarrow> (log1, Inl e)
      | (log1, Inr generated_text) \<Rightarrow>
          if length (split_ws generated_text) < 300 then
            (case call_model net log1 key model (follow_up_prompt topic) of
               (log2, Inl e) \<Rightarrow> (log2, Inl e)
             | (log2, Inr follow_up_text) \<Rightarrow>
                 (log2, Inr (take 3000 (generated_text @ '' '' @ follow_up_text))))
          else (log1, Inr (take 3000 generated_text)))"

text \<open>
  The whole function: the credential check, the \<open>try\<close> block, and the two handlers, which
  both call the function again for \<open>t5-small\<close> unless that is the current model.
\<close>

function generate_content_with_huggingface ::
  "config \<Rightarrow> network \<Rightarrow> request list \<Rightarrow> string \<Rightarrow> string \<Rightarrow> request list \<times> (exn + string)" where
  "generate_content_with_huggingface cfg net log topic model =
     (case huggingface_api_key cfg of
        None \<Rightarrow> (log, Inl (HTTPException 500 ''HUGGINGFACE_API_KEY is not configured.''))
      | Some key \<Rightarrow>
          if key = [] then (log, Inl (HTTPException 500 ''HUGGINGFACE_API_KEY is not configured.''))
          else
            (case try_generate net log key topic model of
               (log', Inr generated_text) \<Rightarrow> (log', Inr generated_text)
             | (log', Inl (HTTPError r)) \<Rightarrow>
                 if model \<noteq> ''t5-small''
                 then generate_content_with_huggingface cfg net log' topic ''t5-small''
                 else (log', Inr (filler topic))
             | (log', Inl e) \<Rightarrow>
                 if model \<noteq> ''t5-small''
                 then generate_content_with_huggingface cfg net log' topic ''t5-small''
                 else (log', Inr (filler topic))))"
  by pat_completeness auto
termination
  by (relation "measure (\<lambda>(cfg, net, log, topic, model). if model = ''t5-small'' then 0 else 1)") auto

declare generate_content_with_huggingface.simps [simp del]

section \<open>Post composer\<close>

record post =
  id_of :: string
  text_of :: string
  topic_of :: string
  created_at :: string

text \<open>
  What \<open>create_post\<close> draws from outside: the two \<open>random.choice\<close> draws, the string of
  \<open>uuid.uuid4()\<close> and \<open>datetime.now().isoformat()\<close>.
\<close>

record draws =
  topic_draw :: nat
  template_draw :: nat
  uuid4 :: string
  now_isoformat :: string

text \<open>\<open>random.choice(xs)\<close> for the draw \<open>r\<close>: an element of \<open>xs\<close>, IndexError when \<open>xs\<close> is empty.\<close>

definition random_choice :: "nat \<Rightarrow> 'a list \<Rightarrow> exn + 'a" where
  "random_choice r xs =
     (if xs = [] then Inl (Exception ''IndexError'') else Inr (xs ! (r mod length xs)))"

definition create_post ::
  "config \<Rightarrow> network \<Rightarrow> request list \<Rightarrow> draws \<Rightarrow> request list \<times> (exn + post)" where
  "create_post cfg net log d =
     (case random_choice (topic_draw d) (content_topics cfg) of
        Inl e \<Rightarrow> (log, Inl e)
      | Inr topic \<Rightarrow>
          (case generate_content_with_huggingface cfg net log topic primary_model of
             (log', Inl e) \<Rightarrow> (log', Inl e)
           | (log', Inr content) \<Rightarrow>
               (case random_choice (template_draw d) (post_templates cfg) of
                  Inl e \<Rightarrow> (log', Inl e)
                | Inr template \<Rightarrow>
                    (log', Inr \<lparr> id_of = uuid4 d,
                                 text_of = format_tc template topic content,
                                 topic_of = topic,
                                 created_at = now_isoformat d \<rparr>))))"

section \<open>Review store\<close>

text \<open>
  The machine the service runs on: which paths \<open>open(path, 'w')\<close> and \<open>open(path, 'r')\<close>
  can open, and the two functions of Python's \<open>json\<close> module on a list of posts,
  \<open>json.dump(posts, f, indent=2)\<close> as the text written and \<open>json.load(f)\<close> as the posts
  read (\<open>None\<close> when the text does not parse). The files are a map from path to content.
\<close>

record host =
  can_write :: "string \<Rightarrow> bool"
  can_read :: "string \<Rightarrow> bool"
  json_dump :: "post list \<Rightarrow> string"
  json_load :: "string \<Rightarrow> post list option"

type_synonym files = "string \<rightharpoonup> string"

text \<open>The path both functions build from \<open>datetime.now().strftime("%Y%m%d")\<close>.\<close>

definition file_path :: "config \<Rightarrow> string \<Rightarrow> string" where
  "file_path cfg today = output_dir cfg @ ''/'' @ ''posts_'' @ today @ ''.json''"


text \<open>The \<open>try\<close> block of \<open>load_pending_posts\<close>: open the file and parse it.\<close>

definition try_load :: "config \<Rightarrow> host \<Rightarrow> files \<Rightarrow> string \<Rightarrow> exn + post list" where
  "try_load cfg h fs today =
     (case fs (file_path cfg today) of
        None \<Rightarrow> Inl (Exception ''FileNotFoundError'')
      | Some content \<Rightarrow>
          if \<not> can_read h (file_path cfg today) then Inl (Exception ''PermissionError'')
          else (case json_load h content of
                  None \<Rightarrow> Inl (Exception ''JSONDecodeError'')
                | Some posts \<Rightarrow> Inr posts))"

definition load_pending_posts :: "config \<Rightarrow> host \<Rightarrow> files \<Rightarrow> string \<Rightarrow> exn + post list" where
  "load_pending_posts cfg h fs today =
     (case try_load cfg h fs today of
        Inl e \<Rightarrow> Inr []
      | Inr posts \<Rightarrow> Inr posts)"

section \<open>Publisher\<close>

record publish_result =
  status :: string
  post_id :: string
  message :: string

definition headers_get :: "(string \<times> string) list \<Rightarrow> string \<Rightarrow> string \<Rightarrow> string" where
  "headers_get hs name dflt = (case map_of hs name of None \<Rightarrow> dflt | Some v \<Rightarrow> v)"

definition publish_request :: "string \<Rightarrow> string \<Rightarrow> string \<Rightarrow> request" where
  "publish_request post_text access_token author_urn = \<lparr>
     url = ''https://api.linkedin.com/rest/posts'',
     authorization = ''Bearer '' @ access_token,
     payload = Commentary author_urn post_text \<rparr>"

text \<open>The \<open>try\<close> block of \<open>post_to_linkedin\<close>.\<close>

definition try_publish ::
  "network \<Rightarrow> request list \<Rightarrow> string \<Rightarrow> string \<Rightarrow> string \<Rightarrow> request list \<times> (exn + publish_result)" where
  "try_publish net log post_text access_token author_urn =
     (let log' = log @ [publish_request post_text access_token author_urn] in
      case net log' of
        Raises msg \<Rightarrow> (log', Inl (Exception msg))
      | Returns r \<Rightarrow>
          (case raise_for_status r of
             Inl e \<Rightarrow> (log', Inl e)
           | Inr _ \<Rightarrow>
               (log', Inr \<lparr> status = ''success'',
                            post_id = headers_get (headers r) ''x-restli-id'' ''Unknown'',
                            message = ''Post uploaded to LinkedIn'' \<rparr>)))"

text \<open>
  \<open>str(e)\<close> for the second handler of \<open>post_to_linkedin\<close>. Its \<open>try\<close> block raises an
  HTTPError, which the first handler takes, or the exception of a failed transport, whose
  message this is; the other two equations are never reached from there.
\<close>

fun str_exn :: "exn \<Rightarrow> string" where
  "str_exn (Exception msg) = msg"
| "str_exn (HTTPError r) = body_text r"
| "str_exn (HTTPException code detail) = detail"

definition post_to_linkedin ::
  "network \<Rightarrow> request list \<Rightarrow> string \<Rightarrow> string \<Rightarrow> string \<Rightarrow> request list \<times> (exn + publish_result)" where
  "post_to_linkedin net log post_text access_token author_urn =
     (case try_publish net log post_text access_token author_urn of
        (log', Inr result) \<Rightarrow> (log', Inr result)
      | (log', Inl (HTTPError r)) \<Rightarrow>
          (log', Inl (HTTPException (status_code r) (''LinkedIn API error: '' @ body_text r)))
      | (log', Inl e) \<Rightarrow>
          (log', Inl (HTTPException 500 (''Failed to post to LinkedIn: '' @ str_exn e))))"

section \<open>The upload endpoint\<close>

text \<open>What the endpoint can change: the requests sent and the files.\<close>

record world =
  sent :: "request list"
  stored :: files

record upload_response =
  response_message :: string
  response_post_id :: string
  original_post :: post

definition upload_post ::
  "config \<Rightarrow> host \<Rightarrow> network \<Rightarrow> world \<Rightarrow> string \<Rightarrow> string \<Rightarrow> string \<Rightarrow> string
     \<Rightarrow> world \<times> (exn + upload_response)" where
  "upload_post cfg h net w today wanted access_token author_urn =
     (case load_pending_posts cfg h (stored w) today of
        Inl e \<Rightarrow> (w, Inl e)
      | Inr posts \<Rightarrow>
          (case find (\<lambda>p. id_of p = wanted) posts of
             None \<Rightarrow> (w, Inl (HTTPException 404 ''Post ID not found''))
           | Some post \<Rightarrow>
               (case post_to_linkedin net (sent w) (text_of post) access_token author_urn of
                  (log', Inl e) \<Rightarrow> (w\<lparr>sent := log'\<rparr>, Inl e)
                | (log', Inr result) \<Rightarrow>
                    (w\<lparr>sent := log'\<rparr>,
                     Inr \<lparr> response_message = message result,
                           response_post_id = post_id result,
                           original_post = post \<rparr>))))"

section \<open>Concrete environments\<close>

text \<open>
  A network that answers the n-th request with the n-th outcome of a list, and refuses
  the connection once the list is used up.
\<close>

definition script :: "outcome list \<Rightarrow> network" where
  "script outs log =
     (if log \<noteq> [] \<and> length log \<le> length outs then outs ! (length log - 1)
      else Raises ''connection refused'')"

definition generated_response :: "string \<Rightarrow> response" where
  "generated_response g = \<lparr> status_code = 200, body_text = [], headers = [], generated = Some g \<rparr>"

definition plain_response :: "int \<Rightarrow> string \<Rightarrow> (string \<times> string) list \<Rightarrow> response" where
  "plain_response code body hs = \<lparr> status_code = code, body_text = body, headers = hs, generated = None \<rparr>"


text \<open>The requests of a log that carry the follow-up prompt for a topic.\<close>

definition continuations :: "string \<Rightarrow> request list \<Rightarrow> request list" where
  "continuations topic log = filter (\<lambda>req. payload req = Inputs (follow_up_prompt topic)) log"

text \<open>
  Python's \<open>json\<close> module on lists of posts: \<open>json_dump_posts\<close> is the text that
  \<open>json.dump(posts, f, indent=2)\<close> writes, \<open>json_load_posts\<close> is \<open>json.load(f)\<close>.
\<close>

definition quote :: char where
  "quote = CHR 0x22"

definition backslash :: char where
  "backslash = CHR 0x5C"

definition newline :: char where
  "newline = CHR 0x0A"

text \<open>
  String literals as \<open>json.dump\<close> writes them (\<open>ensure_ascii\<close> is on): the backslash, the
  quote and five control characters are written as a backslash and one character, the
  other characters outside the range from the space to the tilde as a backslash, \<open>u00\<close> and
  two lower-case hexadecimal digits.
\<close>

definition hex_digit :: "nat \<Rightarrow> char" where
  "hex_digit d = ''0123456789abcdef'' ! d"

definition escape_ascii :: "char \<Rightarrow> string" where
  "escape_ascii c =
     (if c = backslash then [backslash, backslash]
      else if c = quote then [backslash, quote]
      else if c = CHR 0x08 then [backslash, CHR ''b'']
      else if c = CHR 0x0C then [backslash, CHR ''f'']
      else if c = CHR 0x0A then [backslash, CHR ''n'']
      else if c = CHR 0x0D then [backslash, CHR ''r'']
      else if c = CHR 0x09 then [backslash, CHR ''t'']
      else if 32 \<le> (of_char c :: nat) \<and> (of_char c :: nat) \<le> 126 then [c]
      else [backslash, CHR ''u'', CHR ''0'', CHR ''0'',
            hex_digit (of_char c div 16), hex_digit (of_char c mod 16)])"

definition encode_string :: "string \<Rightarrow> string" where
  "encode_string s = quote # concat (map escape_ascii s) @ [quote]"

text \<open>
  The text written for a list of posts with \<open>indent=2\<close>: \<open>[]\<close> for the empty list, otherwise
  one object per post, its four members in the order \<open>create_post\<close> builds them, each on a
  line of its own.
\<close>

definition dump_member :: "string \<Rightarrow> string \<Rightarrow> string" where
  "dump_member k v = ''    '' @ encode_string k @ '': '' @ encode_string v"

definition dump_post :: "post \<Rightarrow> string" where
  "dump_post p =
     ''  {'' @ [newline]
     @ dump_member ''id'' (id_of p) @ '','' @ [newline]
     @ dump_member ''text'' (text_of p) @ '','' @ [newline]
     @ dump_member ''topic'' (topic_of p) @ '','' @ [newline]
     @ dump_member ''created_at'' (created_at p) @ [newline]
     @ ''  }''"

fun dump_posts :: "post list \<Rightarrow> string" where
  "dump_posts [] = []"
| "dump_posts [p] = dump_post p @ [newline]"
| "dump_posts (p # ps) = dump_post p @ '','' @ [newline] @ dump_posts ps"

definition json_dump_posts :: "post list \<Rightarrow> string" where
  "json_dump_posts ps = (if ps = [] then ''[]'' else ''['' @ [newline] @ dump_posts ps @ '']'')"

text \<open>
  Reading: the text is split into tokens. Between tokens only the four JSON white-space
  characters may stand. In a string literal a raw control character is refused, as
  \<open>json.load\<close> does; after a backslash come the quote, the backslash, the slash, one of
  \<open>b f n r t\<close>, or \<open>u\<close> and four hexadecimal digits (of a character below 256, the
  characters of this model).
\<close>

datatype token = LBracket | RBracket | LBrace | RBrace | Colon | Comma | Str string

definition unescape :: "char \<Rightarrow> char option" where
  "unescape e =
     (if e = quote then Some quote
      else if e = backslash then Some backslash
      else if e = CHR ''/'' then Some (CHR ''/'')
      else if e = CHR ''b'' then Some (CHR 0x08)
      else if e = CHR ''f'' then Some (CHR 0x0C)
      else if e = CHR ''n'' then Some (CHR 0x0A)
      else if e = CHR ''r'' then Some (CHR 0x0D)
      else if e = CHR ''t'' then Some (CHR 0x09)
      else None)"

definition unhex :: "char \<Rightarrow> nat option" where
  "unhex c =
     (let n = (of_char c :: nat) in
      if 48 \<le> n \<and> n \<le> 57 then Some (n - 48)
      else if 97 \<le> n \<and> n \<le> 102 then Some (n - 87)
      else if 65 \<le> n \<and> n \<le> 70 then Some (n - 55)
      else None)"

definition unhex4 :: "string \<Rightarrow> char option" where
  "unhex4 hs =
     (case map unhex hs of
        [Some a, Some b, Some c, Some d] \<Rightarrow>
          (let n = ((a * 16 + b) * 16 + c) * 16 + d
           in if n < 256 then Some (char_of n) else None)
      | _ \<Rightarrow> None)"

definition json_space :: "char \<Rightarrow> bool" where
  "json_space c = (c = CHR '' '' \<or> c = CHR 0x09 \<or> c = CHR 0x0A \<or> c = CHR 0x0D)"

text \<open>\<open>lex cs st\<close>: \<open>st\<close> is the string literal being read, \<open>None\<close> between literals.\<close>

fun lex :: "string \<Rightarrow> string option \<Rightarrow> token list option" where
  "lex [] None = Some []"
| "lex [] (Some s) = None"
| "lex (c # cs) None =
     (if c = quote then lex cs (Some [])
      else if json_space c then lex cs None
      else if c = CHR ''['' then map_option (Cons LBracket) (lex cs None)
      else if c = CHR '']'' then map_option (Cons RBracket) (lex cs None)
      else if c = CHR ''{'' then map_option (Cons LBrace) (lex cs None)
      else if c = CHR ''}'' then map_option (Cons RBrace) (lex cs None)
      else if c = CHR '':'' then map_option (Cons Colon) (lex cs None)
      else if c = CHR '','' then map_option (Cons Comma) (lex cs None)
      else None)"
| "lex (c # cs) (Some s) =
     (if c = quote then map_option (Cons (Str s)) (lex cs None)
      else if c = backslash then
        (case cs of
           [] \<Rightarrow> None
         | e # cs' \<Rightarrow>
             if e = CHR ''u'' then
               (case unhex4 (take 4 cs') of
                  None \<Rightarrow> None
                | Some d \<Rightarrow> lex (drop 4 cs') (Some (s @ [d])))
             else (case unescape e of None \<Rightarrow> None | Some d \<Rightarrow> lex cs' (Some (s @ [d]))))
      else if (of_char c :: nat) < 32 then None
      else lex cs (Some (s @ [c])))"

text \<open>
  The value read is taken as a list of posts: an array of objects whose keys are exactly
  \<open>id\<close>, \<open>text\<close>, \<open>topic\<close> and \<open>created_at\<close>, in any order, with string values; of a repeated
  key the last value counts, as in a Python dict. Any other text gives \<open>None\<close>.
  \<open>parse_array ts ms ps\<close> reads the tokens after an opening brace, with the members \<open>ms\<close> of
  the current object and the posts \<open>ps\<close> read so far.
\<close>

definition member_value :: "(string \<times> string) list \<Rightarrow> string \<Rightarrow> string" where
  "member_value ms k = (case map_of (rev ms) k of None \<Rightarrow> [] | Some v \<Rightarrow> v)"

definition post_of_members :: "(string \<times> string) list \<Rightarrow> post option" where
  "post_of_members ms =
     (if set (map fst ms) = set [''id'', ''text'', ''topic'', ''created_at'']
      then Some \<lparr> id_of = member_value ms ''id'', text_of = member_value ms ''text'',
                   topic_of = member_value ms ''topic'', created_at = member_value ms ''created_at'' \<rparr>
      else None)"

fun parse_array :: "token list \<Rightarrow> (string \<times> string) list \<Rightarrow> post list \<Rightarrow> post list option" where
  "parse_array (Str k # Colon # Str v # sep # ts) ms ps =
     (if sep = Comma then parse_array ts (ms @ [(k, v)]) ps
      else if sep = RBrace then
        (case post_of_members (ms @ [(k, v)]) of
           None \<Rightarrow> None
         | Some p \<Rightarrow>
             if ts = [RBracket] then Some (ps @ [p])
             else if take 2 ts = [Comma, LBrace] then parse_array (drop 2 ts) [] (ps @ [p])
             else None)
      else None)"
| "parse_array ts ms ps = None"

definition json_load_posts :: "string \<Rightarrow> post list option" where
  "json_load_posts s =
     (case lex s None of
        None \<Rightarrow> None
      | Some ts \<Rightarrow>
          if ts = [LBracket, RBracket] then Some []
          else (case ts of LBracket # LBrace # ts' \<Rightarrow> parse_array ts' [] [] | _ \<Rightarrow> None))"

text \<open>The tokens of the text written for a post, and for the posts after the first brace.\<close>

definition post_tokens :: "post \<Rightarrow> token list" where
  "post_tokens p =
     [Str ''id'', Colon, Str (id_of p), Comma,
      Str ''text'', Colon, Str (text_of p), Comma,
      Str ''topic'', Colon, Str (topic_of p), Comma,
      Str ''created_at'', Colon, Str (created_at p)]"

fun body_tokens :: "post list \<Rightarrow> token list" where
  "body_tokens [] = []"
| "body_tokens [p] = post_tokens p @ [RBrace, RBracket]"
| "body_tokens (p # ps) = post_tokens p @ [RBrace, Comma, LBrace] @ body_tokens ps"

text \<open>
  A host whose codec is Python's \<open>json\<close>; its two arguments say which paths can be opened
  for writing and for reading.
\<close>

definition python_host :: "(string \<Rightarrow> bool) \<Rightarrow> (string \<Rightarrow> bool) \<Rightarrow> host" where
  "python_host w r = \<lparr>
     can_write = w, can_read = r,
     json_dump = json_dump_posts, json_load = json_load_posts \<rparr>"

definition any_path :: "string \<Rightarrow> bool" where
  "any_path path = True"

definition no_path :: "string \<Rightarrow> bool" where
  "no_path path = False"

definition example_post :: "string \<Rightarrow> post" where
  "example_post i = \<lparr>
     id_of = i, text_of = ''A deep dive into AI: '' @ [quote] @ ''agents'' @ [quote] @ '' #Tech'',
     topic_of = ''AI Developments'', created_at = ''2025-08-01T09:30:00'' \<rparr>"

text \<open>An answer of the generation service of 3306 characters and 301 words.\<close>

definition long_answer :: string where
  "long_answer = concat (replicate 300 ''innovation '') @ ''ahead.''"


definition example_draws :: draws where
  "example_draws = \<lparr> topic_draw = 0, template_draw = 0,
     uuid4 = ''1b4e28ba-2fa1-41d2-883f-0016d3cca427'',
     now_isoformat = ''2025-08-01T09:30:00.000000'' \<rparr>"

section \<open>Properties of the content generator\<close>

lemma generate_with_fallback_model:
  assumes "huggingface_api_key cfg = Some key" "key \<noteq> []"
  shows "generate_content_with_huggingface cfg net log topic ''t5-small'' =
     (case try_generate net log key topic ''t5-small'' of
        (log', Inr s) \<Rightarrow> (log', Inr s)
      | (log', Inl e) \<Rightarrow> (log', Inr (filler topic)))"
  using assms
  by (simp add: generate_content_with_huggingface.simps [of cfg net log topic "''t5-small''"]
           split: prod.splits sum.splits exn.splits)

lemma generate_with_other_model:
  assumes "huggingface_api_key cfg = Some key" "key \<noteq> []" "model \<noteq> ''t5-small''"
  shows "generate_content_with_huggingface cfg net log topic model =
     (case try_generate net log key topic model of
        (log', Inr s) \<Rightarrow> (log', Inr s)
      | (log', Inl e) \<Rightarrow> generate_content_with_huggingface cfg net log' topic ''t5-small'')"
  using assms
  by (simp add: generate_content_with_huggingface.simps [of cfg net log topic model]
           split: prod.splits sum.splits exn.splits)

lemma length_filler: "length (filler topic) = 404 + length topic"
  by (simp add: filler_def)

lemma try_generate_length:
  "try_generate net log key topic model = (log', Inr s) \<Longrightarrow> length s \<le> 3000"
  by (auto simp add: try_generate_def split: prod.splits sum.splits if_splits)

lemma call_model_log:
  "fst (call_model net log key model inputs) = log @ [generation_request key model inputs]"
  by (simp add: call_model_def Let_def split: outcome.splits sum.splits option.splits)

lemma call_model_success:
  assumes "net (log @ [generation_request key model inputs]) = Returns r"
      and "raise_for_status r = Inr ()" and "generated r = Some g"
  shows "call_model net log key model inputs =
           (log @ [generation_request key model inputs], Inr (strip g))"
  using assms by (simp add: call_model_def Let_def)




text \<open>
  Facts about the texts used as answers of the generation service below.
\<close>
lemma isspace_simps [simp]:
  "isspace (CHR '' '')" "\<not> isspace (CHR ''i'')" "\<not> isspace (CHR ''n'')" "\<not> isspace (CHR ''o'')"
  "\<not> isspace (CHR ''v'')" "\<not> isspace (CHR ''a'')" "\<not> isspace (CHR ''t'')" "\<not> isspace (CHR ''h'')"
  "\<not> isspace (CHR ''e'')" "\<not> isspace (CHR ''d'')" "\<not> isspace (CHR ''.'')"
  by (simp_all add: isspace_def)

lemma split_acc_replicate:
  "split_acc (concat (replicate n ''innovation '') @ rest) [] =
     replicate n ''innovation'' @ split_acc rest []"
  by (induction n) simp_all

lemma length_split_long_answer: "length (split_ws long_answer) = 301"
  by (simp add: split_ws_def long_answer_def split_acc_replicate)

lemma strip_unchanged:
  assumes "s \<noteq> []" "\<not> isspace (hd s)" "\<not> isspace (last s)"
  shows "strip s = s"
proof -
  have "dropWhile isspace s = s"
    using assms(1,2) by (cases s) simp_all
  moreover have "dropWhile isspace (rev s) = rev s"
    using assms(1,3) by (cases "rev s") (simp_all add: hd_rev [symmetric])
  ultimately show ?thesis by (simp add: strip_def)
qed

lemma hd_concat_replicate:
  "0 < n \<Longrightarrow> w \<noteq> [] \<Longrightarrow> hd (concat (replicate n w)) = hd w"
  by (cases n) simp_all

lemma strip_long_answer: "strip long_answer = long_answer"
proof (rule strip_unchanged)
  show "long_answer \<noteq> []" by (simp add: long_answer_def)
  show "\<not> isspace (hd long_answer)"
    by (simp add: long_answer_def hd_concat_replicate)
  show "\<not> isspace (last long_answer)"
    by (simp add: long_answer_def)
qed

lemma length_long_answer: "length long_answer = 3306"
  by (simp add: long_answer_def length_concat sum_list_replicate)

lemma strip_examples:
  "strip ''Agents plan.'' = ''Agents plan.''"
  "strip ''They also act. '' = ''They also act.''"
  "length (split_ws ''Agents plan.'') = 2"
  by (simp_all add: strip_def isspace_def split_ws_def)

lemma raise_for_status_generated [simp]: "raise_for_status (generated_response g) = Inr ()"
  by (simp add: raise_for_status_def generated_response_def)

lemma generated_generated_response [simp]: "generated (generated_response g) = Some g"
  by (simp add: generated_response_def)




lemma configured_topics_short:
  "topic \<in> set (content_topics (CONFIG k)) \<Longrightarrow> length topic \<le> 2596"
  by (auto simp add: CONFIG_def)

text \<open>
  With the credential present the function returns a string; it has at most 3000
  characters when the topic has at most 2596: a generated text is cut to 3000 characters
  and the static paragraph has 404 characters besides the topic.
\<close>
lemma generate_length_le:
  assumes "huggingface_api_key cfg = Some key" and "key \<noteq> []"
      and "length topic \<le> 2596"
  shows "\<exists>log' s. generate_content_with_huggingface cfg net log topic model = (log', Inr s)
                  \<and> length s \<le> 3000"
proof -
  have fb: "\<exists>log' s. generate_content_with_huggingface cfg net l topic ''t5-small'' = (log', Inr s)
                  \<and> length s \<le> 3000" for l
  proof (cases "try_generate net l key topic ''t5-small''")
    case (Pair l' res)
    then show ?thesis
      using assms try_generate_length [of net l key topic "''t5-small''" l']
      by (cases res) (simp_all add: generate_with_fallback_model [OF assms(1,2)] length_filler)
  qed
  show ?thesis
  proof (cases "model = ''t5-small''")
    case True
    then show ?thesis using fb by simp
  next
    case False
    show ?thesis
    proof (cases "try_generate net log key topic model")
      case (Pair l' res)
      then show ?thesis
        using fb [of l'] try_generate_length [of net log key topic model l']
        by (cases res) (simp_all add: generate_with_other_model [OF assms(1,2) False])
    qed
  qed
qed

text \<open>
  Claim C2. For every configured topic and whatever the generation service does on any of
  its calls, a string returned by \<open>generate_content_with_huggingface\<close> has at most 3000
  characters; with the credential present a string is returned.
\<close>
theorem generated_length_bound:
  assumes "topic \<in> set (content_topics (CONFIG k))"
  shows "(\<forall>log' s. generate_content_with_huggingface (CONFIG k) net log topic model = (log', Inr s)
            \<longrightarrow> length s \<le> 3000)
       \<and> (k \<noteq> None \<and> k \<noteq> Some [] \<longrightarrow>
            (\<exists>log' s. generate_content_with_huggingface (CONFIG k) net log topic model = (log', Inr s)
                      \<and> length s \<le> 3000))"
proof (cases "k = None \<or> k = Some []")
  case True
  then have "generate_content_with_huggingface (CONFIG k) net log topic model =
               (log, Inl (HTTPException 500 ''HUGGINGFACE_API_KEY is not configured.''))"
    by (auto simp add: generate_content_with_huggingface.simps [of _ net log topic model]
          CONFIG_def)
  with True show ?thesis by auto
next
  case False
  then obtain key where k: "k = Some key" "key \<noteq> []" by auto
  have "huggingface_api_key (CONFIG k) = Some key"
    using k by (simp add: CONFIG_def)
  from generate_length_le [OF this k(2) configured_topics_short [OF assms], of net log model]
  show ?thesis
    using k by auto
qed

text \<open>
  Witness for C2: a configured topic and a service that answers 503.
\<close>
theorem generated_length_bound_witness:
  "''AI Developments'' \<in> set (content_topics (CONFIG (Some ''hf_key'')))
   \<and> Some ''hf_key'' \<noteq> None \<and> Some ''hf_key'' \<noteq> Some []
   \<and> (\<exists>log' s. generate_content_with_huggingface (CONFIG (Some ''hf_key''))
                   (script [Returns (plain_response 503 ''busy'' [])]) [] ''AI Developments'' primary_model
                   = (log', Inr s) \<and> length s \<le> 3000)"
proof -
  have t: "''AI Developments'' \<in> set (content_topics (CONFIG (Some ''hf_key'')))"
    by (simp add: CONFIG_def)
  show ?thesis
    using generated_length_bound [OF t, of "script [Returns (plain_response 503 ''busy'' [])]"
            "[]" primary_model] t
    by simp
qed

text \<open>
  Claim C3, as amended. When the first call of an attempt succeeds with a text of fewer than
  300 words, the attempt sends exactly one more request, the follow-up prompt to the same
  model; when that request succeeds as well, the function returns the first text, one space
  and the continuation text (both stripped), cut to 3000 characters, and sends nothing
  else. When the first text has 300 words or more, the function returns it cut to 3000
  characters after that single request.
\<close>
theorem continuation_once:
  assumes "huggingface_api_key cfg = Some key" and "key \<noteq> []"
      and "net (log @ [generation_request key model (prompt topic)]) = Returns r1"
      and "raise_for_status r1 = Inr ()" and "generated r1 = Some g1"
  shows "(length (split_ws (strip g1)) < 300 \<longrightarrow>
            fst (try_generate net log key topic model) =
              log @ [generation_request key model (prompt topic),
                     generation_request key model (follow_up_prompt topic)]
          \<and> (\<forall>r2 g2.
                net (log @ [generation_request key model (prompt topic),
                            generation_request key model (follow_up_prompt topic)]) = Returns r2
                \<and> raise_for_status r2 = Inr () \<and> generated r2 = Some g2 \<longrightarrow>
                generate_content_with_huggingface cfg net log topic model =
                  (log @ [generation_request key model (prompt topic),
                          generation_request key model (follow_up_prompt topic)],
                   Inr (take 3000 (strip g1 @ '' '' @ strip g2)))))
       \<and> (\<not> length (split_ws (strip g1)) < 300 \<longrightarrow>
            generate_content_with_huggingface cfg net log topic model =
              (log @ [generation_request key model (prompt topic)], Inr (take 3000 (strip g1))))"
proof -
  let ?q1 = "generation_request key model (prompt topic)"
  let ?q2 = "generation_request key model (follow_up_prompt topic)"
  have c1: "call_model net log key model (prompt topic) = (log @ [?q1], Inr (strip g1))"
    using assms(3-5) by (rule call_model_success)
  have gen: "try_generate net log key topic model = (l, Inr s) \<Longrightarrow>
             generate_content_with_huggingface cfg net log topic model = (l, Inr s)" for l s
    using assms(1,2)
    by (simp add: generate_content_with_huggingface.simps [of cfg net log topic model])
  have short_log: "fst (try_generate net log key topic model) = log @ [?q1, ?q2]"
    if "length (split_ws (strip g1)) < 300"
    using that c1 call_model_log [of net "log @ [?q1]" key model "follow_up_prompt topic"]
    by (cases "call_model net (log @ [?q1]) key model (follow_up_prompt topic)")
       (auto simp add: try_generate_def split: sum.splits)
  have short_ok: "generate_content_with_huggingface cfg net log topic model =
                    (log @ [?q1, ?q2], Inr (take 3000 (strip g1 @ '' '' @ strip g2)))"
    if "length (split_ws (strip g1)) < 300"
       and "net (log @ [?q1, ?q2]) = Returns r2" "raise_for_status r2 = Inr ()"
           "generated r2 = Some g2" for r2 g2
  proof -
    have "call_model net (log @ [?q1]) key model (follow_up_prompt topic) =
            ((log @ [?q1]) @ [?q2], Inr (strip g2))"
      using that(2-4) by (intro call_model_success) simp_all
    then have "try_generate net log key topic model =
            (log @ [?q1, ?q2], Inr (take 3000 (strip g1 @ '' '' @ strip g2)))"
      using c1 that(1) by (simp add: try_generate_def)
    then show ?thesis by (rule gen)
  qed
  have long_ok: "generate_content_with_huggingface cfg net log topic model =
                   (log @ [?q1], Inr (take 3000 (strip g1)))"
    if "\<not> length (split_ws (strip g1)) < 300"
  proof -
    have "try_generate net log key topic model = (log @ [?q1], Inr (take 3000 (strip g1)))"
      using c1 that by (simp add: try_generate_def)
    then show ?thesis by (rule gen)
  qed
  show ?thesis
    using short_log short_ok long_ok by blast
qed

text \<open>
  Witness for C3 as amended: a two-word answer that is continued, and an answer of 301
  words that is not.
\<close>
theorem continuation_once_witness:
  "length (split_ws (strip ''Agents plan.'')) < 300
   \<and> generate_content_with_huggingface (CONFIG (Some ''hf_key''))
        (script [Returns (generated_response ''Agents plan.''),
                 Returns (generated_response ''They also act. '')])
        [] ''AI Developments'' primary_model =
        ([generation_request ''hf_key'' primary_model (prompt ''AI Developments''),
          generation_request ''hf_key'' primary_model (follow_up_prompt ''AI Developments'')],
         Inr ''Agents plan. They also act.'')
   \<and> \<not> length (split_ws (strip long_answer)) < 300
   \<and> generate_content_with_huggingface (CONFIG (Some ''hf_key''))
        (script [Returns (generated_response long_answer)])
        [] ''AI Developments'' primary_model =
        ([generation_request ''hf_key'' primary_model (prompt ''AI Developments'')],
         Inr (take 3000 long_answer))"
proof -
  let ?cfg = "CONFIG (Some ''hf_key'')"
  let ?q1 = "generation_request ''hf_key'' primary_model (prompt ''AI Developments'')"
  let ?q2 = "generation_request ''hf_key'' primary_model (follow_up_prompt ''AI Developments'')"
  let ?short = "script [Returns (generated_response ''Agents plan.''),
                        Returns (generated_response ''They also act. '')]"
  let ?long = "script [Returns (generated_response long_answer)]"
  have k: "huggingface_api_key ?cfg = Some ''hf_key''" by (simp add: CONFIG_def)
  have k': "''hf_key'' \<noteq> []" by simp
  have s1: "?short ([] @ [?q1]) = Returns (generated_response ''Agents plan.'')"
    by (simp add: script_def)
  have s2: "?short ([] @ [?q1, ?q2]) = Returns (generated_response ''They also act. '')"
    by (simp add: script_def)
  have l1: "?long ([] @ [?q1]) = Returns (generated_response long_answer)"
    by (simp add: script_def)
  have w: "length (split_ws (strip ''Agents plan.'')) < 300"
    by (simp add: strip_examples)
  have nw: "\<not> length (split_ws (strip long_answer)) < 300"
    by (simp add: strip_long_answer length_split_long_answer)
  from continuation_once [where net = ?short and log = "[]", OF k k' s1
         raise_for_status_generated generated_generated_response]
       w s2
  have a: "generate_content_with_huggingface ?cfg ?short [] ''AI Developments'' primary_model =
             ([?q1, ?q2], Inr (take 3000 (strip ''Agents plan.'' @ '' '' @ strip ''They also act. '')))"
    by simp
  from continuation_once [where net = ?long and log = "[]", OF k k' l1
         raise_for_status_generated generated_generated_response] nw
  have b: "generate_content_with_huggingface ?cfg ?long [] ''AI Developments'' primary_model =
             ([?q1], Inr (take 3000 (strip long_answer)))"
    by simp
  show ?thesis
    using a b w nw by (simp add: strip_examples strip_long_answer)
qed

text \<open>
  Counterexample to C3 as stated: the primary model answers with a short text and then
  503 to the continuation request; the fallback model is tried, so two continuation
  requests are sent, and the text returned is the fallback's.
\<close>
theorem failed_continuation_counterexample:
  "continuations ''AI Developments''
     (fst (generate_content_with_huggingface (CONFIG (Some ''hf_key''))
        (script [Returns (generated_response ''Agents plan.''),
                 Returns (plain_response 503 ''busy'' []),
                 Returns (generated_response ''Agents plan.''),
                 Returns (generated_response ''They also act. '')])
        [] ''AI Developments'' primary_model)) =
     [generation_request ''hf_key'' primary_model (follow_up_prompt ''AI Developments''),
      generation_request ''hf_key'' ''t5-small'' (follow_up_prompt ''AI Developments'')]
   \<and> snd (generate_content_with_huggingface (CONFIG (Some ''hf_key''))
        (script [Returns (generated_response ''Agents plan.''),
                 Returns (plain_response 503 ''busy'' []),
                 Returns (generated_response ''Agents plan.''),
                 Returns (generated_response ''They also act. '')])
        [] ''AI Developments'' primary_model) = Inr ''Agents plan. They also act.''"
proof -
  let ?cfg = "CONFIG (Some ''hf_key'')"
  let ?t = "''AI Developments''"
  let ?net = "script [Returns (generated_response ''Agents plan.''),
                 Returns (plain_response 503 ''busy'' []),
                 Returns (generated_response ''Agents plan.''),
                 Returns (generated_response ''They also act. '')]"
  let ?p1 = "generation_request ''hf_key'' primary_model (prompt ?t)"
  let ?p2 = "generation_request ''hf_key'' primary_model (follow_up_prompt ?t)"
  let ?f1 = "generation_request ''hf_key'' ''t5-small'' (prompt ?t)"
  let ?f2 = "generation_request ''hf_key'' ''t5-small'' (follow_up_prompt ?t)"
  have k: "huggingface_api_key ?cfg = Some ''hf_key''" by (simp add: CONFIG_def)
  have m: "primary_model \<noteq> ''t5-small''" by (simp add: primary_model_def)
  have t1: "try_generate ?net [] ''hf_key'' ?t primary_model =
              ([?p1, ?p2], Inl (HTTPError (plain_response 503 ''busy'' [])))"
    by (simp add: try_generate_def call_model_def script_def strip_examples
                  raise_for_status_def plain_response_def generated_response_def)
  have t2: "try_generate ?net [?p1, ?p2] ''hf_key'' ?t ''t5-small'' =
              ([?p1, ?p2, ?f1, ?f2], Inr ''Agents plan. They also act.'')"
    by (simp add: try_generate_def call_model_def script_def strip_examples
                  raise_for_status_def generated_response_def)
  have g: "generate_content_with_huggingface ?cfg ?net [] ?t primary_model =
             ([?p1, ?p2, ?f1, ?f2], Inr ''Agents plan. They also act.'')"
    by (simp add: generate_with_other_model [OF k _ m] generate_with_fallback_model [OF k] t1 t2)
  have c: "continuations ?t [?p1, ?p2, ?f1, ?f2] = [?p2, ?f2]"
    by (simp add: continuations_def generation_request_def prompt_def follow_up_prompt_def)
  show ?thesis
    by (simp only: g fst_conv snd_conv c simp_thms)
qed



section \<open>Properties of the post composer\<close>

lemma format_first_template:
  "format_tc (post_templates (CONFIG k) ! 0) topic content =
     ''Sharing insights on '' @ topic @ '': '' @ content
     @ '' This advancement is shaping the future of technology. #Tech #Innovation''"
  by (simp add: CONFIG_def)

lemma generate_long_answer:
  "generate_content_with_huggingface (CONFIG (Some ''hf_key''))
     (script [Returns (generated_response long_answer)]) [] topic primary_model =
     ([generation_request ''hf_key'' primary_model (prompt topic)], Inr (take 3000 long_answer))"
proof -
  have "try_generate (script [Returns (generated_response long_answer)]) [] ''hf_key'' topic primary_model =
          ([generation_request ''hf_key'' primary_model (prompt topic)], Inr (take 3000 long_answer))"
    by (simp add: try_generate_def call_model_def script_def strip_long_answer
                  length_split_long_answer)
  then show ?thesis
    by (simp add: generate_content_with_huggingface.simps
          [of _ _ "[]" topic primary_model] CONFIG_def)
qed

text \<open>
  Claim C9 fails on the code. The generated content is cut to 3000 characters, the limit the
  source's comment names, and only then placed in the template: for a generated text of
  3306 characters and 301 words, the topic \<open>Emerging Technologies\<close> and the first
  template, the text of the post has 3115 characters.
\<close>
theorem composed_text_exceeds_limit:
  "snd (create_post (CONFIG (Some ''hf_key''))
          (script [Returns (generated_response long_answer)]) [] example_draws) =
     Inr \<lparr> id_of = ''1b4e28ba-2fa1-41d2-883f-0016d3cca427'',
           text_of = ''Sharing insights on Emerging Technologies: '' @ take 3000 long_answer
             @ '' This advancement is shaping the future of technology. #Tech #Innovation'',
           topic_of = ''Emerging Technologies'',
           created_at = ''2025-08-01T09:30:00.000000'' \<rparr>
   \<and> length (''Sharing insights on Emerging Technologies: '' @ take 3000 long_answer
             @ '' This advancement is shaping the future of technology. #Tech #Innovation'') = 3115"
proof -
  have t: "random_choice (topic_draw example_draws) (content_topics (CONFIG (Some ''hf_key''))) =
             Inr ''Emerging Technologies''"
    by (simp add: random_choice_def example_draws_def CONFIG_def)
  have tpl: "random_choice (template_draw example_draws) (post_templates (CONFIG (Some ''hf_key''))) =
             Inr (post_templates (CONFIG (Some ''hf_key'')) ! 0)"
    by (simp add: random_choice_def example_draws_def CONFIG_def)
  have "snd (create_post (CONFIG (Some ''hf_key''))
          (script [Returns (generated_response long_answer)]) [] example_draws) =
     Inr \<lparr> id_of = uuid4 example_draws,
           text_of = format_tc (post_templates (CONFIG (Some ''hf_key'')) ! 0)
                       ''Emerging Technologies'' (take 3000 long_answer),
           topic_of = ''Emerging Technologies'',
           created_at = now_isoformat example_draws \<rparr>"
    by (simp add: create_post_def t tpl generate_long_answer)
  then show ?thesis
    by (simp add: format_first_template example_draws_def length_long_answer)
qed

section \<open>The JSON round trip\<close>

lemma unhex_hex_digit: "d < 16 \<Longrightarrow> unhex (hex_digit d) = Some d"
proof -
  have "\<forall>d \<in> set [0..<16]. unhex (hex_digit d) = Some d"
    by code_simp
  then show "d < 16 \<Longrightarrow> unhex (hex_digit d) = Some d"
    by simp
qed

lemma unhex_zero: "unhex (CHR ''0'') = Some 0"
  by (simp add: unhex_def)

lemma unhex4_escape:
  "unhex4 [CHR ''0'', CHR ''0'', hex_digit (of_char c div 16), hex_digit (of_char c mod 16)] = Some c"
proof -
  have n: "(of_char c :: nat) < 256" by simp
  then have "(of_char c :: nat) div 16 < 16" by (simp add: div_less_iff_less_mult)
  moreover have "(of_char c :: nat) mod 16 < 16" by simp
  ultimately show ?thesis
    using n by (simp add: unhex4_def unhex_zero unhex_hex_digit)
qed

lemma lex_plain:
  "c \<noteq> quote \<Longrightarrow> c \<noteq> backslash \<Longrightarrow> 32 \<le> (of_char c :: nat) \<Longrightarrow>
     lex (c # cs) (Some s) = lex cs (Some (s @ [c]))"
  by simp

lemma lex_unicode_escape:
  "lex (backslash # CHR ''u'' # h1 # h2 # h3 # h4 # cs) (Some s) =
     (case unhex4 [h1, h2, h3, h4] of None \<Rightarrow> None | Some d \<Rightarrow> lex cs (Some (s @ [d])))"
  by (simp add: quote_def backslash_def split: option.split)

lemma lex_short_escape:
  "lex (backslash # backslash # cs) (Some s) = lex cs (Some (s @ [backslash]))"
  "lex (backslash # quote # cs) (Some s) = lex cs (Some (s @ [quote]))"
  "lex (backslash # CHR ''b'' # cs) (Some s) = lex cs (Some (s @ [CHR 0x08]))"
  "lex (backslash # CHR ''f'' # cs) (Some s) = lex cs (Some (s @ [CHR 0x0C]))"
  "lex (backslash # CHR ''n'' # cs) (Some s) = lex cs (Some (s @ [CHR 0x0A]))"
  "lex (backslash # CHR ''r'' # cs) (Some s) = lex cs (Some (s @ [CHR 0x0D]))"
  "lex (backslash # CHR ''t'' # cs) (Some s) = lex cs (Some (s @ [CHR 0x09]))"
  by (simp_all add: unescape_def quote_def backslash_def)

lemma lex_escape_ascii:
  "lex (escape_ascii c @ rest) (Some s) = lex rest (Some (s @ [c]))"
  by (simp add: escape_ascii_def lex_plain lex_unicode_escape lex_short_escape unhex4_escape
           del: lex.simps)

lemma lex_escaped:
  "lex (concat (map escape_ascii s) @ quote # rest) (Some acc) =
     map_option (Cons (Str (acc @ s))) (lex rest None)"
proof (induction s arbitrary: acc)
  case Nil
  then show ?case by simp
next
  case (Cons c s)
  then show ?case by (simp add: lex_escape_ascii del: lex.simps)
qed

lemma lex_encode_string:
  "lex (encode_string s @ rest) None = map_option (Cons (Str s)) (lex rest None)"
  using lex_escaped [of s rest "[]"] by (simp add: encode_string_def)

lemma lex_dump_post:
  "lex (dump_post p @ rest) None =
     map_option (\<lambda>ts. LBrace # post_tokens p @ RBrace # ts) (lex rest None)"
  by (cases "lex rest None")
     (simp_all add: dump_post_def dump_member_def lex_encode_string post_tokens_def
        json_space_def newline_def quote_def)

lemma lex_closing: "lex (newline # '']'') None = Some [RBracket]"
  by (simp add: json_space_def newline_def quote_def)

lemma lex_separator:
  "lex ('','' @ newline # rest) None = map_option (Cons Comma) (lex rest None)"
  by (simp add: json_space_def newline_def quote_def)

lemma lex_dump_posts:
  "ps \<noteq> [] \<Longrightarrow> lex (dump_posts ps @ '']'') None = Some (LBrace # body_tokens ps)"
proof (induction ps rule: dump_posts.induct)
  case 1
  then show ?case by simp
next
  case (2 p)
  show ?case
    using lex_dump_post [of p "newline # '']''"] by (simp add: lex_closing del: lex.simps)
next
  case (3 p q ps)
  then have "lex (dump_posts (q # ps) @ '']'') None = Some (LBrace # body_tokens (q # ps))"
    by simp
  then show ?case
    using lex_dump_post [of p "'','' @ newline # dump_posts (q # ps) @ '']''"]
          lex_separator [of "dump_posts (q # ps) @ '']''"]
    by (simp del: lex.simps)
qed

lemma post_of_post_members:
  "post_of_members [(''id'', id_of p), (''text'', text_of p), (''topic'', topic_of p),
                    (''created_at'', created_at p)] = Some p"
  by (simp add: post_of_members_def member_value_def)

lemma parse_body_tokens:
  "ps \<noteq> [] \<Longrightarrow> parse_array (body_tokens ps) [] acc = Some (acc @ ps)"
proof (induction ps arbitrary: acc rule: body_tokens.induct)
  case 1
  then show ?case by simp
next
  case (2 p)
  show ?case by (simp add: post_tokens_def post_of_post_members)
next
  case (3 p q ps)
  then have "parse_array (body_tokens (q # ps)) [] (acc @ [p]) = Some ((acc @ [p]) @ q # ps)"
    by blast
  then show ?case by (simp add: post_tokens_def post_of_post_members)
qed

text \<open>
  What \<open>json.load\<close> reads from the text \<open>json.dump\<close> wrote for a list of posts is that list,
  whatever characters the posts hold.
\<close>
lemma json_round_trip: "json_load_posts (json_dump_posts ps) = Some ps"
proof (cases "ps = []")
  case True
  then show ?thesis
    by (simp add: json_load_posts_def json_dump_posts_def quote_def json_space_def)
next
  case False
  have "lex (json_dump_posts ps) None = Some (LBracket # LBrace # body_tokens ps)"
    using False lex_dump_posts [OF False]
    by (simp add: json_dump_posts_def quote_def json_space_def newline_def)
  moreover have "body_tokens ps \<noteq> [RBracket]"
    using False by (cases ps rule: body_tokens.cases) (simp_all add: post_tokens_def)
  ultimately show ?thesis
    using parse_body_tokens [OF False, of "[]"] by (simp add: json_load_posts_def)
qed

section \<open>Properties of the review store\<close>

lemma load_pending_posts_cases:
  "load_pending_posts cfg h fs today =
     (case fs (file_path cfg today) of
        None \<Rightarrow> Inr []
      | Some content \<Rightarrow>
          if can_read h (file_path cfg today)
          then (case json_load h content of None \<Rightarrow> Inr [] | Some posts \<Rightarrow> Inr posts)
          else Inr [])"
  by (simp add: load_pending_posts_def try_load_def split: option.splits)

lemma python_host_simps [simp]:
  "can_write (python_host w r) = w"
  "can_read (python_host w r) = r"
  "json_dump (python_host w r) = json_dump_posts"
  "json_load (python_host w r) = json_load_posts"
  by (simp_all add: python_host_def)

lemma path_flags: "any_path path" "\<not> no_path path"
  by (simp_all add: any_path_def no_path_def)

lemma json_load_garbage: "json_load_posts ''not json'' = None"
  by code_simp




text \<open>
  Claim C6. \<open>load_pending_posts\<close> always returns a list and never raises; when the day's file
  is absent, cannot be read, or does not parse, the list is empty.
\<close>
theorem load_never_raises:
  "(\<exists>posts. load_pending_posts cfg h fs today = Inr posts)
   \<and> (fs (file_path cfg today) = None
        \<or> \<not> can_read h (file_path cfg today)
        \<or> (\<exists>content. fs (file_path cfg today) = Some content \<and> json_load h content = None)
      \<longrightarrow> load_pending_posts cfg h fs today = Inr [])"
  by (auto simp add: load_pending_posts_cases split: option.splits)

text \<open>
  Witness for C6: no file, a file that cannot be read, and a file that is not JSON.
\<close>
theorem load_never_raises_witness:
  "load_pending_posts (CONFIG None) (python_host any_path any_path) Map.empty ''20250801'' = Inr []
   \<and> load_pending_posts (CONFIG None) (python_host any_path no_path)
        [file_path (CONFIG None) ''20250801'' \<mapsto> json_dump_posts [example_post ''a1'']]
        ''20250801'' = Inr []
   \<and> load_pending_posts (CONFIG None) (python_host any_path any_path)
        [file_path (CONFIG None) ''20250801'' \<mapsto> ''not json''] ''20250801'' = Inr []"
  using load_never_raises [of "CONFIG None" "python_host any_path any_path" Map.empty "''20250801''"]
        load_never_raises [of "CONFIG None" "python_host any_path no_path"
          "[file_path (CONFIG None) ''20250801'' \<mapsto> json_dump_posts [example_post ''a1'']]"
          "''20250801''"]
        load_never_raises [of "CONFIG None" "python_host any_path any_path"
          "[file_path (CONFIG None) ''20250801'' \<mapsto> ''not json'']" "''20250801''"]
  by (simp add: json_load_garbage path_flags)

section \<open>Properties of the upload endpoint\<close>

text \<open>
  Claim C7. When no post of the day's queue has the identifier asked for, \<open>upload_post\<close>
  raises HTTPException 404 and leaves the world as it was: no request is sent to the
  platform and the stored files are unchanged.
\<close>
theorem upload_unknown_id:
  assumes "load_pending_posts cfg h (stored w) today = Inr posts"
      and "\<forall>p \<in> set posts. id_of p \<noteq> wanted"
  shows "upload_post cfg h net w today wanted access_token author_urn =
           (w, Inl (HTTPException 404 ''Post ID not found''))"
proof -
  have "find (\<lambda>p. id_of p = wanted) posts = None"
    using assms(2) by (simp add: find_None_iff)
  then show ?thesis
    using assms(1) by (simp add: upload_post_def)
qed

text \<open>
  Witness for C7: a queue holding one post, and a request for another identifier.
\<close>
theorem upload_unknown_id_witness:
  "load_pending_posts (CONFIG None) (python_host any_path any_path)
     (stored \<lparr> sent = [], stored = [file_path (CONFIG None) ''20250801'' \<mapsto> json_dump_posts [example_post ''a1'']] \<rparr>)
     ''20250801'' = Inr [example_post ''a1'']
   \<and> id_of (example_post ''a1'') \<noteq> ''zz9''
   \<and> upload_post (CONFIG None) (python_host any_path any_path) (script [])
        \<lparr> sent = [], stored = [file_path (CONFIG None) ''20250801'' \<mapsto> json_dump_posts [example_post ''a1'']] \<rparr>
        ''20250801'' ''zz9'' ''token'' ''urn:li:person:abc'' =
        (\<lparr> sent = [], stored = [file_path (CONFIG None) ''20250801'' \<mapsto> json_dump_posts [example_post ''a1'']] \<rparr>,
         Inl (HTTPException 404 ''Post ID not found''))"
proof -
  let ?cfg = "CONFIG None" and ?h = "python_host any_path any_path"
  let ?w = "\<lparr> sent = [], stored = [file_path ?cfg ''20250801'' \<mapsto> json_dump_posts [example_post ''a1'']] \<rparr>"
  have a: "load_pending_posts ?cfg ?h (stored ?w) ''20250801'' = Inr [example_post ''a1'']"
    by (simp add: load_pending_posts_cases json_round_trip path_flags)
  have b: "\<forall>p \<in> set [example_post ''a1'']. id_of p \<noteq> ''zz9''"
    by (simp add: example_post_def)
  show ?thesis
    using upload_unknown_id [OF a b] a b by simp
qed

section \<open>Properties of the publisher\<close>

lemma try_publish_log:
  "fst (try_publish net log post_text access_token author_urn) =
     log @ [publish_request post_text access_token author_urn]"
  by (simp add: try_publish_def Let_def split: outcome.splits sum.splits)




text \<open>
  Claim C10. A 2xx response without an \<open>x-restli-id\<close> header still gives a success result; its
  post id is the literal \<open>Unknown\<close>.
\<close>
theorem publish_without_id_header:
  assumes "net (log @ [publish_request post_text access_token author_urn]) = Returns r"
      and "200 \<le> status_code r" and "status_code r < 300"
      and "map_of (headers r) ''x-restli-id'' = None"
  shows "post_to_linkedin net log post_text access_token author_urn =
           (log @ [publish_request post_text access_token author_urn],
            Inr \<lparr> status = ''success'', post_id = ''Unknown'',
                  message = ''Post uploaded to LinkedIn'' \<rparr>)"
  using assms
  by (simp add: post_to_linkedin_def try_publish_def Let_def raise_for_status_def headers_get_def)

text \<open>
  Witness for C10: a 201 response whose only header is the content length.
\<close>
theorem publish_without_id_header_witness:
  "script [Returns (plain_response 201 [] [(''content-length'', ''0'')])]
     ([] @ [publish_request ''Hello'' ''token'' ''urn:li:person:abc'']) =
     Returns (plain_response 201 [] [(''content-length'', ''0'')])
   \<and> 200 \<le> status_code (plain_response 201 [] [(''content-length'', ''0'')])
   \<and> status_code (plain_response 201 [] [(''content-length'', ''0'')]) < 300
   \<and> map_of (headers (plain_response 201 [] [(''content-length'', ''0'')])) ''x-restli-id'' = None
   \<and> post_to_linkedin (script [Returns (plain_response 201 [] [(''content-length'', ''0'')])])
        [] ''Hello'' ''token'' ''urn:li:person:abc'' =
        ([publish_request ''Hello'' ''token'' ''urn:li:person:abc''],
         Inr \<lparr> status = ''success'', post_id = ''Unknown'',
               message = ''Post uploaded to LinkedIn'' \<rparr>)"
proof -
  let ?q = "publish_request ''Hello'' ''token'' ''urn:li:person:abc''"
  let ?r = "plain_response 201 [] [(''content-length'', ''0'')]"
  have a: "script [Returns ?r] ([] @ [?q]) = Returns ?r"
    by (simp add: script_def)
  have b: "200 \<le> status_code ?r" and c: "status_code ?r < 300"
    and d: "map_of (headers ?r) ''x-restli-id'' = None"
    by (simp_all add: plain_response_def)
  show ?thesis
    using publish_without_id_header [where net = "script [Returns ?r]" and log = "[]", OF a b c d]
          a b c d
    by simp
qed

end
